theory Spec2Isabelle
  imports Complex_Main
begin

section \<open>Python values\<close>

text \<open>
  The values that \<^verbatim>\<open>response.json()\<close> can produce and that a caller can pass for
  \<^verbatim>\<open>city\<close>, \<^verbatim>\<open>lat\<close> and \<^verbatim>\<open>lon\<close>. A float is a finite number or one of the three
  special values Python's JSON reader also accepts. A dict is kept as the list of its
  items (keys of a parsed JSON object are strings); \<open>map_of\<close> is the lookup.
\<close>

datatype pyfloat = Finite real | PosInf | NegInf | NaN

datatype pyval =
    PNone
  | PBool bool
  | PInt int
  | PFloat pyfloat
  | PStr string
  | PList "pyval list"
  | PDict "(string \<times> pyval) list"

text \<open>Truth value testing, as \<^verbatim>\<open>if city:\<close> and \<^verbatim>\<open>lat and lon\<close> apply it.\<close>

fun truthy :: "pyval \<Rightarrow> bool" where
  "truthy PNone = False"
| "truthy (PBool b) = b"
| "truthy (PInt i) = (i \<noteq> 0)"
| "truthy (PFloat f) = (f \<noteq> Finite 0)"
| "truthy (PStr s) = (s \<noteq> [])"
| "truthy (PList xs) = (xs \<noteq> [])"
| "truthy (PDict d) = (d \<noteq> [])"

text \<open>\<^verbatim>\<open>v == n\<close> for an int literal \<open>n\<close>: numbers compare by value, \<^verbatim>\<open>True\<close> is 1 and
  \<^verbatim>\<open>False\<close> is 0, everything else is unequal to an int.\<close>

fun eq_int :: "pyval \<Rightarrow> int \<Rightarrow> bool" where
  "eq_int (PInt i) n = (i = n)"
| "eq_int (PBool b) n = ((if b then 1 else 0) = n)"
| "eq_int (PFloat (Finite r)) n = (r = of_int n)"
| "eq_int _ n = False"

subsection \<open>Exceptions\<close>

text \<open>The exceptions that can arise inside \<^verbatim>\<open>fetch_weather\<close>: those of subscripting
  and attribute access, \<^verbatim>\<open>requests.RequestException\<close> with its \<^verbatim>\<open>str\<close>, and whatever
  else the transport may raise.\<close>

datatype pykey = KStr string | KInt int

datatype exn =
    RequestException string
  | KeyError pykey
  | IndexError
  | TypeError
  | AttributeError
  | OtherError string

text \<open>Sequencing: an exception ends the evaluation, a value is passed on.\<close>

definition and_then :: "'x + 'a \<Rightarrow> ('a \<Rightarrow> 'x + 'b) \<Rightarrow> 'x + 'b" where
  "and_then r f = (case r of Inl e \<Rightarrow> Inl e | Inr v \<Rightarrow> f v)"

text \<open>\<^verbatim>\<open>v[k]\<close> with a string key: only a dict accepts it, and raises \<^verbatim>\<open>KeyError(k)\<close>
  when the key is missing; a list or a string wants an integer index, the other values are
  not subscriptable (both \<^verbatim>\<open>TypeError\<close>).\<close>

fun getitem_str :: "pyval \<Rightarrow> string \<Rightarrow> exn + pyval" where
  "getitem_str (PDict d) k =
     (case map_of d k of None \<Rightarrow> Inl (KeyError (KStr k)) | Some v \<Rightarrow> Inr v)"
| "getitem_str _ k = Inl TypeError"

text \<open>\<^verbatim>\<open>v[i]\<close> with an integer index: a list or a string is indexed (negative indices
  count from the end, out of range is \<^verbatim>\<open>IndexError\<close>); a dict with string keys has no
  key \<open>i\<close>, which is \<^verbatim>\<open>KeyError(i)\<close>.\<close>

definition index_of :: "nat \<Rightarrow> int \<Rightarrow> nat option" where
  "index_of len i =
     (if 0 \<le> i \<and> i < int len then Some (nat i)
      else if i < 0 \<and> - int len \<le> i then Some (nat (int len + i))
      else None)"

fun getitem_int :: "pyval \<Rightarrow> int \<Rightarrow> exn + pyval" where
  "getitem_int (PList xs) i =
     (case index_of (length xs) i of None \<Rightarrow> Inl IndexError | Some j \<Rightarrow> Inr (xs ! j))"
| "getitem_int (PStr s) i =
     (case index_of (length s) i of None \<Rightarrow> Inl IndexError | Some j \<Rightarrow> Inr (PStr [s ! j]))"
| "getitem_int (PDict d) i = Inl (KeyError (KInt i))"
| "getitem_int _ i = Inl TypeError"

text \<open>\<^verbatim>\<open>v.get(k, default)\<close>: a dict method; any other value has no attribute
  \<^verbatim>\<open>get\<close>.\<close>

fun py_get :: "pyval \<Rightarrow> string \<Rightarrow> pyval \<Rightarrow> exn + pyval" where
  "py_get (PDict d) k dflt = Inr (case map_of d k of None \<Rightarrow> dflt | Some v \<Rightarrow> v)"
| "py_get _ k dflt = Inl AttributeError"

subsection \<open>Decimal numerals and \<^verbatim>\<open>strftime\<close>\<close>

definition digit_char :: "nat \<Rightarrow> char" where
  "digit_char n = ''0123456789'' ! (n mod 10)"

fun dec :: "nat \<Rightarrow> string" where
  "dec n = (if n < 10 then [digit_char n] else dec (n div 10) @ [digit_char n])"

declare dec.simps [simp del]

definition str_int :: "int \<Rightarrow> string" where
  "str_int i = (if i < 0 then CHR ''-'' # dec (nat (- i)) else dec (nat i))"

text \<open>\<^verbatim>\<open>str(e)\<close> of a \<^verbatim>\<open>KeyError\<close> is the \<^verbatim>\<open>repr\<close> of its key: a string key in
  single quotes (the keys the program subscripts with are literals without quotes or
  escapes), an integer key as its numeral.\<close>

definition repr_key :: "pykey \<Rightarrow> string" where
  "repr_key k = (case k of KStr s \<Rightarrow> [CHR 0x27] @ s @ [CHR 0x27] | KInt i \<Rightarrow> str_int i)"

record datetime =
  year :: nat
  month :: nat
  day :: nat
  hour :: nat
  minute :: nat
  second :: nat

definition pad2 :: "nat \<Rightarrow> string" where
  "pad2 n = (if n < 10 then CHR ''0'' # dec n else dec n)"

text \<open>\<^verbatim>\<open>strftime("%Y-%m-%d %H:%M:%S")\<close>: the year as its decimal numeral, the other
  fields zero-padded to two digits.\<close>

definition strftime :: "datetime \<Rightarrow> string" where
  "strftime t =
     dec (year t) @ ''-'' @ pad2 (month t) @ ''-'' @ pad2 (day t) @ '' '' @
     pad2 (hour t) @ '':'' @ pad2 (minute t) @ '':'' @ pad2 (second t)"

section \<open>WeatherData.fetch_weather\<close>

text \<open>
  The request: \<^verbatim>\<open>fetch_weather\<close> formats \<^verbatim>\<open>base_url\<close>, the API key and either the city
  or the coordinates into the URL it passes to \<^verbatim>\<open>requests.get\<close>. The network and the
  clock are the environment: \<open>transport\<close> answers a request with what lines 26 to 28
  produce (the parsed body, or the exception that \<^verbatim>\<open>requests.get\<close>,
  \<^verbatim>\<open>raise_for_status\<close> or \<^verbatim>\<open>response.json\<close> raises), \<open>now\<close> is the reading of
  \<^verbatim>\<open>datetime.now()\<close>.
\<close>

datatype query = ByCity pyval | ByCoords pyval pyval

record env =
  transport :: "query \<Rightarrow> exn + pyval"
  now :: datetime

definition build_query :: "pyval \<Rightarrow> pyval \<Rightarrow> pyval \<Rightarrow> query option" where
  "build_query c la lo =
     (if truthy c then Some (ByCity c)
      else if truthy la \<and> truthy lo then Some (ByCoords la lo)
      else None)"

text \<open>The dict display of lines 33 to 42, its items evaluated in order.\<close>

definition observation_of :: "datetime \<Rightarrow> pyval \<Rightarrow> exn + pyval" where
  "observation_of t data =
     and_then (getitem_str data ''name'') (\<lambda>v_city.
     and_then (and_then (getitem_str data ''main'') (\<lambda>m. getitem_str m ''temp'')) (\<lambda>v_temp.
     and_then (and_then (getitem_str data ''main'') (\<lambda>m. getitem_str m ''humidity'')) (\<lambda>v_humidity.
     and_then (and_then (getitem_str data ''wind'') (\<lambda>w. getitem_str w ''speed'')) (\<lambda>v_wind.
     and_then (and_then (and_then (getitem_str data ''weather'') (\<lambda>w. getitem_int w 0))
             (\<lambda>w0. getitem_str w0 ''description'')) (\<lambda>v_description.
     and_then (and_then (getitem_str data ''coord'') (\<lambda>c. getitem_str c ''lat'')) (\<lambda>v_lat.
     and_then (and_then (getitem_str data ''coord'') (\<lambda>c. getitem_str c ''lon'')) (\<lambda>v_lon.
     Inr (PDict
       [(''city'', v_city),
        (''temp'', v_temp),
        (''humidity'', v_humidity),
        (''wind_speed'', v_wind),
        (''description'', v_description),
        (''lat'', v_lat),
        (''lon'', v_lon),
        (''timestamp'', PStr (strftime t))]))))))))"

text \<open>The body of the \<^verbatim>\<open>try\<close> block: the requests issued, and the pair returned or
  the exception raised.\<close>

definition fetch_weather_try ::
  "env \<Rightarrow> pyval \<Rightarrow> pyval \<Rightarrow> pyval \<Rightarrow> query list \<times> (exn + pyval \<times> pyval)" where
  "fetch_weather_try e c la lo =
     (case build_query c la lo of
        None \<Rightarrow> ([], Inr (PNone, PStr ''Please provide a city name or coordinates.''))
      | Some q \<Rightarrow>
          ([q],
           and_then (transport e q) (\<lambda>data.
           and_then (py_get data ''cod'' PNone) (\<lambda>cod.
             if \<not> eq_int cod 200
             then and_then (py_get data ''message'' (PStr ''Error fetching weather data.''))
                    (\<lambda>m. Inr (PNone, m))
             else and_then (observation_of (now e) data) (\<lambda>obs. Inr (obs, PNone))))))"

text \<open>The two \<^verbatim>\<open>except\<close> clauses; any other exception leaves the function.\<close>

definition fetch_weather ::
  "env \<Rightarrow> pyval \<Rightarrow> pyval \<Rightarrow> pyval \<Rightarrow> query list \<times> (exn + pyval \<times> pyval)" where
  "fetch_weather e c la lo =
     (case fetch_weather_try e c la lo of
        (reqs, Inl (RequestException m)) \<Rightarrow>
          (reqs, Inr (PNone, PStr (''Network error: '' @ m)))
      | (reqs, Inl (KeyError k)) \<Rightarrow>
          (reqs, Inr (PNone, PStr (''Data parsing error: Missing key '' @ repr_key k)))
      | (reqs, r) \<Rightarrow> (reqs, r))"

section \<open>DatabaseManager\<close>


















text \<open>SQL \<^verbatim>\<open>a = b\<close> in a \<^verbatim>\<open>WHERE\<close> clause: true only for two equal non-\<^verbatim>\<open>NULL\<close>
  values.\<close>

fun sql_eq :: "string option \<Rightarrow> string option \<Rightarrow> bool" where
  "sql_eq (Some a) (Some b) = (a = b)"
| "sql_eq _ _ = False"






text \<open>The dict that \<^verbatim>\<open>save_weather_history\<close> reads at six keys (any other key it
  has is ignored).\<close>

record weather_data =
  city :: "string option"
  temp :: pyval
  humidity :: pyval
  wind_speed :: pyval
  description :: pyval
  timestamp :: pyval



section \<open>Properties\<close>

subsection \<open>Vocabulary of the statements\<close>

text \<open>A timestamp of the form \<^verbatim>\<open>YYYY-MM-DD HH:MM:SS\<close>: nineteen characters, a digit
  wherever the pattern has a \<^verbatim>\<open>d\<close> and the pattern's own character elsewhere.\<close>

definition is_digit :: "char \<Rightarrow> bool" where
  "is_digit ch = (ch \<in> set ''0123456789'')"

definition fits :: "char \<Rightarrow> char \<Rightarrow> bool" where
  "fits p ch = (if p = CHR ''d'' then is_digit ch else ch = p)"

definition well_formed_timestamp :: "string \<Rightarrow> bool" where
  "well_formed_timestamp s = list_all2 fits ''dddd-dd-dd dd:dd:dd'' s"

text \<open>A reading of the clock within the ranges of a \<^verbatim>\<open>datetime\<close> and with a year of
  four digits, for which \<^verbatim>\<open>%Y\<close> is the same on every platform.\<close>

definition four_digit_year :: "datetime \<Rightarrow> bool" where
  "four_digit_year t =
     (1000 \<le> year t \<and> year t \<le> 9999 \<and> 1 \<le> month t \<and> month t \<le> 12 \<and>
      1 \<le> day t \<and> day t \<le> 31 \<and> hour t < 24 \<and> minute t < 60 \<and> second t < 60)"

text \<open>The documented shape of a success body:
  \<^verbatim>\<open>{cod, name, main: {temp, humidity}, wind: {speed}, weather: [{description}],
  coord: {lat, lon}}\<close>. A body keeps to it when each container that is present is of
  the documented kind; any field may still be missing.\<close>

fun dict_if_present :: "pyval option \<Rightarrow> bool" where
  "dict_if_present None = True"
| "dict_if_present (Some (PDict m)) = True"
| "dict_if_present (Some _) = False"

fun dict_list_if_present :: "pyval option \<Rightarrow> bool" where
  "dict_list_if_present None = True"
| "dict_list_if_present (Some (PList (PDict m # rest))) = True"
| "dict_list_if_present (Some _) = False"

definition expected_shape :: "(string \<times> pyval) list \<Rightarrow> bool" where
  "expected_shape d =
     (dict_if_present (map_of d ''main'') \<and> dict_if_present (map_of d ''wind'') \<and>
      dict_list_if_present (map_of d ''weather'') \<and> dict_if_present (map_of d ''coord''))"

text \<open>The fields missing from a body: a container that is absent, or else those of its
  fields that are, listed in the order of the documented shape.\<close>

fun missing_leaf :: "string \<Rightarrow> pyval option \<Rightarrow> string list" where
  "missing_leaf k None = [k]"
| "missing_leaf k (Some v) = []"

fun missing_under :: "string \<Rightarrow> string list \<Rightarrow> pyval option \<Rightarrow> string list" where
  "missing_under k subkeys None = [k]"
| "missing_under k subkeys (Some (PDict m)) = filter (\<lambda>s. map_of m s = None) subkeys"
| "missing_under k subkeys (Some (PList (PDict m # rest))) =
     filter (\<lambda>s. map_of m s = None) subkeys"
| "missing_under k subkeys (Some _) = []"

definition missing_fields :: "(string \<times> pyval) list \<Rightarrow> string list" where
  "missing_fields d =
     missing_leaf ''name'' (map_of d ''name'') @
     missing_under ''main'' [''temp'', ''humidity''] (map_of d ''main'') @
     missing_under ''wind'' [''speed''] (map_of d ''wind'') @
     missing_under ''weather'' [''description''] (map_of d ''weather'') @
     missing_under ''coord'' [''lat'', ''lon''] (map_of d ''coord'')"

definition usage_error :: "pyval \<times> pyval" where
  "usage_error = (PNone, PStr ''Please provide a city name or coordinates.'')"





text \<open>A sample environment: the body of the repository's success test, at noon of
  13 June 2025.\<close>

definition lahore_body :: pyval where
  "lahore_body = PDict
     [(''cod'', PInt 200),
      (''name'', PStr ''Lahore''),
      (''main'', PDict [(''temp'', PInt 30), (''humidity'', PInt 50)]),
      (''wind'', PDict [(''speed'', PInt 2)]),
      (''weather'', PList [PDict [(''description'', PStr ''clear sky'')]]),
      (''coord'', PDict [(''lat'', PFloat (Finite 31.5)), (''lon'', PFloat (Finite 74.3))])]"

definition noon :: datetime where
  "noon = \<lparr>year = 2025, month = 6, day = 13, hour = 12, minute = 0, second = 0\<rparr>"

definition answering :: "pyval \<Rightarrow> env" where
  "answering body = \<lparr>transport = (\<lambda>q. Inr body), now = noon\<rparr>"


subsection \<open>Decimal numerals\<close>

lemma is_digit_digit_char: "is_digit (digit_char n)"
  unfolding is_digit_def digit_char_def by (rule nth_mem) simp

lemma dec_one_digit: "n < 10 \<Longrightarrow> dec n = [digit_char n]"
  by (subst dec.simps) simp

lemma dec_two_digits:
  "10 \<le> n \<Longrightarrow> n < 100 \<Longrightarrow> dec n = [digit_char (n div 10), digit_char n]"
  by (subst dec.simps) (simp add: dec_one_digit)

lemma dec_three_digits:
  "100 \<le> n \<Longrightarrow> n < 1000 \<Longrightarrow>
   dec n = [digit_char (n div 100), digit_char (n div 10), digit_char n]"
  by (subst dec.simps) (simp add: dec_two_digits div_mult2_eq [symmetric])

lemma dec_four_digits:
  "1000 \<le> n \<Longrightarrow> n < 10000 \<Longrightarrow>
   dec n = [digit_char (n div 1000), digit_char (n div 100), digit_char (n div 10),
            digit_char n]"
  by (subst dec.simps) (simp add: dec_three_digits div_mult2_eq [symmetric])

lemma pad2_two_digits:
  "n < 100 \<Longrightarrow> pad2 n = [digit_char (n div 10), digit_char n]"
  by (cases "n < 10") (simp_all add: pad2_def dec_one_digit dec_two_digits digit_char_def)

lemma strftime_well_formed:
  "four_digit_year t \<Longrightarrow> well_formed_timestamp (strftime t)"
  unfolding four_digit_year_def well_formed_timestamp_def strftime_def
  by (simp add: dec_four_digits pad2_two_digits fits_def is_digit_digit_char)

subsection \<open>fetch_weather\<close>

lemma fetch_weather_no_query:
  "build_query c la lo = None \<Longrightarrow> fetch_weather e c la lo = ([], Inr usage_error)"
  by (simp add: fetch_weather_def fetch_weather_try_def usage_error_def)

lemma fetch_weather_dict:
  assumes "build_query c la lo = Some q" and "transport e q = Inr (PDict d)"
  shows "fetch_weather e c la lo =
     (case (if \<not> eq_int (case map_of d ''cod'' of None \<Rightarrow> PNone | Some v \<Rightarrow> v) 200
            then Inr (PNone, case map_of d ''message'' of
                               None \<Rightarrow> PStr ''Error fetching weather data.'' | Some v \<Rightarrow> v)
            else and_then (observation_of (now e) (PDict d)) (\<lambda>obs. Inr (obs, PNone))) of
        Inl (RequestException m) \<Rightarrow> ([q], Inr (PNone, PStr (''Network error: '' @ m)))
      | Inl (KeyError k) \<Rightarrow>
          ([q], Inr (PNone, PStr (''Data parsing error: Missing key '' @ repr_key k)))
      | r \<Rightarrow> ([q], r))"
  using assms
  by (simp add: fetch_weather_def fetch_weather_try_def and_then_def
      split: sum.splits exn.splits)

lemma dict_if_presentE:
  assumes "dict_if_present x"
  obtains "x = None" | m where "x = Some (PDict m)"
  using assms by (cases x rule: dict_if_present.cases) auto

lemma dict_list_if_presentE:
  assumes "dict_list_if_present x"
  obtains "x = None" | m rest where "x = Some (PList (PDict m # rest))"
  using assms by (cases x rule: dict_list_if_present.cases) auto

lemma observation_of_missing:
  assumes shape: "expected_shape d" and nonempty: "missing_fields d \<noteq> []"
  shows "observation_of t (PDict d) = Inl (KeyError (KStr (hd (missing_fields d))))"
proof -
  from shape have sh: "dict_if_present (map_of d ''main'')"
    "dict_if_present (map_of d ''wind'')" "dict_list_if_present (map_of d ''weather'')"
    "dict_if_present (map_of d ''coord'')"
    by (simp_all add: expected_shape_def)
  note defs = missing_fields_def observation_of_def and_then_def index_of_def
  show ?thesis
  proof (cases "map_of d ''name''")
    case None
    with nonempty  show ?thesis by (simp add: defs)
  next
    case f_name: (Some v0)
    from sh(1) show ?thesis
    proof (cases rule: dict_if_presentE)
      case 1
      with nonempty f_name show ?thesis by (simp add: defs)
    next
      case f_main: (2 m)
      show ?thesis
      proof (cases "map_of m ''temp''")
        case None
        with nonempty f_name f_main show ?thesis by (simp add: defs)
      next
        case f_temp: (Some v1)
        show ?thesis
        proof (cases "map_of m ''humidity''")
          case None
          with nonempty f_name f_main f_temp show ?thesis by (simp add: defs)
        next
          case f_humidity: (Some v2)
          from sh(2) show ?thesis
          proof (cases rule: dict_if_presentE)
            case 1
            with nonempty f_name f_main f_temp f_humidity show ?thesis by (simp add: defs)
          next
            case f_wind: (2 w)
            show ?thesis
            proof (cases "map_of w ''speed''")
              case None
              with nonempty f_name f_main f_temp f_humidity f_wind show ?thesis by (simp add: defs)
            next
              case f_speed: (Some v3)
              from sh(3) show ?thesis
              proof (cases rule: dict_list_if_presentE)
                case 1
                with nonempty f_name f_main f_temp f_humidity f_wind f_speed show ?thesis by (simp add: defs)
              next
                case f_weather: (2 w0 rest)
                show ?thesis
                proof (cases "map_of w0 ''description''")
                  case None
                  with nonempty f_name f_main f_temp f_humidity f_wind f_speed f_weather show ?thesis by (simp add: defs)
                next
                  case f_description: (Some v4)
                  from sh(4) show ?thesis
                  proof (cases rule: dict_if_presentE)
                    case 1
                    with nonempty f_name f_main f_temp f_humidity f_wind f_speed f_weather f_description show ?thesis by (simp add: defs)
                  next
                    case f_coord: (2 co)
                    show ?thesis
                    proof (cases "map_of co ''lat''")
                      case None
                      with nonempty f_name f_main f_temp f_humidity f_wind f_speed f_weather f_description f_coord show ?thesis by (simp add: defs)
                    next
                      case f_lat: (Some v5)
                      show ?thesis
                      proof (cases "map_of co ''lon''")
                        case None
                        with nonempty f_name f_main f_temp f_humidity f_wind f_speed f_weather f_description f_coord f_lat show ?thesis by (simp add: defs)
                      next
                        case f_lon: (Some v6)
                        from nonempty f_name f_main f_temp f_humidity f_wind f_speed f_weather f_description f_coord f_lat f_lon show ?thesis by (simp add: defs)
                      qed
                    qed
                  qed
                qed
              qed
            qed
          qed
        qed
      qed
    qed
  qed
qed

text \<open>
  C3. When no city is given (\<^verbatim>\<open>city\<close> is \<^verbatim>\<open>None\<close>) and the coordinate pair is not given
  either (\<^verbatim>\<open>lat\<close> or \<^verbatim>\<open>lon\<close> is \<^verbatim>\<open>None\<close>), \<^verbatim>\<open>fetch_weather\<close> returns \<^verbatim>\<open>None\<close> for
  the data with the non-empty message "Please provide a city name or coordinates.", and
  issues no request.
\<close>

theorem fetch_weather_usage_error:
  assumes "c = PNone" and "la = PNone \<or> lo = PNone"
  shows "fetch_weather e c la lo =
           ([], Inr (PNone, PStr ''Please provide a city name or coordinates.''))
         \<and> ''Please provide a city name or coordinates.'' \<noteq> []"
  using assms fetch_weather_no_query [of c la lo e]
  by (auto simp: build_query_def usage_error_def)

theorem fetch_weather_usage_error_witness:
  "fetch_weather (answering lahore_body) PNone PNone (PFloat (Finite 74.3)) =
     ([], Inr (PNone, PStr ''Please provide a city name or coordinates.''))"
  using fetch_weather_usage_error
    [of PNone PNone "PFloat (Finite 74.3)" "answering lahore_body"]
  by simp

text \<open>
  C9. With no city and a latitude or a longitude of exactly 0 (say \<^verbatim>\<open>city=None\<close>,
  \<^verbatim>\<open>lat=0.0\<close>, \<^verbatim>\<open>lon=74.3\<close>), \<^verbatim>\<open>fetch_weather\<close> takes the coordinates for missing:
  it returns the usage error and issues no request, where for a latitude other than 0
  it queries by coordinates.
\<close>

theorem fetch_weather_zero_coordinate:
  "fetch_weather e PNone (PFloat (Finite 0)) (PFloat (Finite 74.3)) = ([], Inr usage_error)
   \<and> fetch_weather e PNone (PFloat (Finite 31.5)) (PFloat (Finite 0)) = ([], Inr usage_error)
   \<and> fetch_weather e PNone (PInt 0) (PInt 74) = ([], Inr usage_error)
   \<and> build_query PNone (PFloat (Finite 31.5)) (PFloat (Finite 74.3)) =
       Some (ByCoords (PFloat (Finite 31.5)) (PFloat (Finite 74.3)))"
  by (simp add: fetch_weather_no_query build_query_def)

text \<open>
  C7. When a request is issued and the body parses to an object whose \<^verbatim>\<open>cod\<close> is not
  200 (neither the integer nor the float 200; an absent \<^verbatim>\<open>cod\<close> counts), \<^verbatim>\<open>fetch_weather\<close>
  returns \<^verbatim>\<open>None\<close> for the data and, as the error, the body's \<^verbatim>\<open>message\<close> field, or
  "Error fetching weather data." when the body has none.
\<close>

theorem fetch_weather_provider_error:
  assumes "build_query c la lo = Some q"
    and "transport e q = Inr (PDict d)"
    and "map_of d ''cod'' \<noteq> Some (PInt 200)"
    and "map_of d ''cod'' \<noteq> Some (PFloat (Finite 200))"
  shows "fetch_weather e c la lo =
           ([q], Inr (PNone, case map_of d ''message'' of
                               None \<Rightarrow> PStr ''Error fetching weather data.''
                             | Some m \<Rightarrow> m))"
proof -
  have "\<not> eq_int (case map_of d ''cod'' of None \<Rightarrow> PNone | Some v \<Rightarrow> v) 200"
  proof (cases "map_of d ''cod''")
    case None
    then show ?thesis by simp
  next
    case (Some v)
    show ?thesis
    proof (cases v)
      case (PFloat f)
      with Some assms(3,4) show ?thesis by (cases f) auto
    qed (use Some assms(3,4) in auto)
  qed
  with fetch_weather_dict [OF assms(1,2)] show ?thesis by simp
qed

theorem fetch_weather_provider_error_witness:
  "fetch_weather
     (answering (PDict [(''cod'', PInt 404), (''message'', PStr ''city not found'')]))
     (PStr ''FakeCity'') PNone PNone =
   ([ByCity (PStr ''FakeCity'')], Inr (PNone, PStr ''city not found''))
   \<and> fetch_weather (answering (PDict [(''cod'', PStr ''404'')]))
     (PStr ''FakeCity'') PNone PNone =
   ([ByCity (PStr ''FakeCity'')], Inr (PNone, PStr ''Error fetching weather data.''))"
  using fetch_weather_provider_error
      [of "PStr ''FakeCity''" PNone PNone "ByCity (PStr ''FakeCity'')"
        "answering (PDict [(''cod'', PInt 404), (''message'', PStr ''city not found'')])"
        "[(''cod'', PInt 404), (''message'', PStr ''city not found'')]"]
    fetch_weather_provider_error
      [of "PStr ''FakeCity''" PNone PNone "ByCity (PStr ''FakeCity'')"
        "answering (PDict [(''cod'', PStr ''404'')])" "[(''cod'', PStr ''404'')]"]
  by (simp add: build_query_def answering_def)

text \<open>
  C1. When a request is issued and the body parses to an object with \<^verbatim>\<open>cod\<close> equal to
  200 and with \<^verbatim>\<open>name\<close>, \<^verbatim>\<open>main.temp\<close>, \<^verbatim>\<open>main.humidity\<close>, \<^verbatim>\<open>wind.speed\<close>,
  \<^verbatim>\<open>weather[0].description\<close>, \<^verbatim>\<open>coord.lat\<close> and \<^verbatim>\<open>coord.lon\<close> all present,
  \<^verbatim>\<open>fetch_weather\<close> returns, with a \<^verbatim>\<open>None\<close> error, the observation whose \<^verbatim>\<open>city\<close>,
  \<^verbatim>\<open>temp\<close>, \<^verbatim>\<open>humidity\<close>, \<^verbatim>\<open>wind_speed\<close>, \<^verbatim>\<open>description\<close>, \<^verbatim>\<open>lat\<close> and \<^verbatim>\<open>lon\<close> are
  those very fields of the body, and whose \<^verbatim>\<open>timestamp\<close> is the clock's reading as a
  well-formed \<^verbatim>\<open>YYYY-MM-DD HH:MM:SS\<close> string.
\<close>

theorem fetch_weather_success:
  assumes "build_query c la lo = Some q"
    and "transport e q = Inr (PDict d)"
    and "map_of d ''cod'' = Some (PInt 200) \<or> map_of d ''cod'' = Some (PFloat (Finite 200))"
    and "map_of d ''name'' = Some v_name"
    and "map_of d ''main'' = Some (PDict m)"
    and "map_of m ''temp'' = Some v_temp"
    and "map_of m ''humidity'' = Some v_humidity"
    and "map_of d ''wind'' = Some (PDict w)"
    and "map_of w ''speed'' = Some v_speed"
    and "map_of d ''weather'' = Some (PList (PDict w0 # rest))"
    and "map_of w0 ''description'' = Some v_description"
    and "map_of d ''coord'' = Some (PDict co)"
    and "map_of co ''lat'' = Some v_lat"
    and "map_of co ''lon'' = Some v_lon"
    and "four_digit_year (now e)"
  shows "fetch_weather e c la lo =
           ([q], Inr (PDict
              [(''city'', v_name),
               (''temp'', v_temp),
               (''humidity'', v_humidity),
               (''wind_speed'', v_speed),
               (''description'', v_description),
               (''lat'', v_lat),
               (''lon'', v_lon),
               (''timestamp'', PStr (strftime (now e)))], PNone))
         \<and> well_formed_timestamp (strftime (now e))"
proof -
  from assms(3) have "eq_int (case map_of d ''cod'' of None \<Rightarrow> PNone | Some v \<Rightarrow> v) 200"
    by auto
  moreover have "observation_of (now e) (PDict d) = Inr (PDict
              [(''city'', v_name),
               (''temp'', v_temp),
               (''humidity'', v_humidity),
               (''wind_speed'', v_speed),
               (''description'', v_description),
               (''lat'', v_lat),
               (''lon'', v_lon),
               (''timestamp'', PStr (strftime (now e)))])"
    using assms(4-14) by (simp add: observation_of_def and_then_def index_of_def)
  ultimately show ?thesis
    using fetch_weather_dict [OF assms(1,2)] strftime_well_formed [OF assms(15)]
    by (simp add: and_then_def)
qed

theorem fetch_weather_success_witness:
  "fetch_weather (answering lahore_body) (PStr ''Lahore'') PNone PNone =
     ([ByCity (PStr ''Lahore'')], Inr (PDict
        [(''city'', PStr ''Lahore''),
         (''temp'', PInt 30),
         (''humidity'', PInt 50),
         (''wind_speed'', PInt 2),
         (''description'', PStr ''clear sky''),
         (''lat'', PFloat (Finite 31.5)),
         (''lon'', PFloat (Finite 74.3)),
         (''timestamp'', PStr (strftime noon))], PNone))
   \<and> well_formed_timestamp (strftime noon)
   \<and> four_digit_year noon
   \<and> strftime noon = ''2025-06-13 12:00:00''"
proof -
  have stamp: "strftime noon = ''2025-06-13 12:00:00''"
    by (simp add: strftime_def noon_def dec_four_digits pad2_two_digits digit_char_def)
  have env: "transport (answering lahore_body) (ByCity (PStr ''Lahore'')) = Inr lahore_body"
    "now (answering lahore_body) = noon"
    by (simp_all add: answering_def)
  have clock: "four_digit_year noon"
    by (simp add: four_digit_year_def noon_def)
  have query: "build_query (PStr ''Lahore'') PNone PNone = Some (ByCity (PStr ''Lahore''))"
    by (simp add: build_query_def)
  show ?thesis
    using fetch_weather_success
      [of "PStr ''Lahore''" PNone PNone "ByCity (PStr ''Lahore'')" "answering lahore_body"
        "[(''cod'', PInt 200),
          (''name'', PStr ''Lahore''),
          (''main'', PDict [(''temp'', PInt 30), (''humidity'', PInt 50)]),
          (''wind'', PDict [(''speed'', PInt 2)]),
          (''weather'', PList [PDict [(''description'', PStr ''clear sky'')]]),
          (''coord'', PDict [(''lat'', PFloat (Finite 31.5)), (''lon'', PFloat (Finite 74.3))])]"
        "PStr ''Lahore''"
        "[(''temp'', PInt 30), (''humidity'', PInt 50)]" "PInt 30" "PInt 50"
        "[(''speed'', PInt 2)]" "PInt 2"
        "[(''description'', PStr ''clear sky'')]" "[]" "PStr ''clear sky''"
        "[(''lat'', PFloat (Finite 31.5)), (''lon'', PFloat (Finite 74.3))]"
        "PFloat (Finite 31.5)" "PFloat (Finite 74.3)"]
      env clock query stamp
    by (simp add: lahore_body_def)
qed

text \<open>
  On a body of the documented shape with \<^verbatim>\<open>cod\<close> equal to 200 from which some field is
  missing, the \<^verbatim>\<open>KeyError\<close> handler returns \<^verbatim>\<open>None\<close> for the data and the message
  "Data parsing error: Missing key" followed by the quoted name of the first missing
  field.
\<close>

lemma missing_field_in_expected_shape:
  assumes "build_query c la lo = Some q"
    and "transport e q = Inr (PDict d)"
    and "map_of d ''cod'' = Some (PInt 200) \<or> map_of d ''cod'' = Some (PFloat (Finite 200))"
    and "expected_shape d"
    and "missing_fields d \<noteq> []"
  shows "fetch_weather e c la lo =
           ([q], Inr (PNone, PStr (''Data parsing error: Missing key '' @
                        [CHR 0x27] @ hd (missing_fields d) @ [CHR 0x27])))
         \<and> hd (missing_fields d) \<in> set (missing_fields d)"
proof -
  from assms(3) have "eq_int (case map_of d ''cod'' of None \<Rightarrow> PNone | Some v \<Rightarrow> v) 200"
    by auto
  with fetch_weather_dict [OF assms(1,2)] observation_of_missing [OF assms(4,5), of "now e"]
    assms(5)
  show ?thesis
    by (simp add: and_then_def repr_key_def)
qed

text \<open>
  C8. On every body of cod 200 from which an expected field is missing, \<^verbatim>\<open>fetch_weather\<close>
  is to return \<^verbatim>\<open>None\<close> with a data-parsing error naming the field. On a body without
  \<^verbatim>\<open>coord\<close> whose \<^verbatim>\<open>weather\<close> is the empty list, \<^verbatim>\<open>data["weather"][0]\<close> raises
  \<^verbatim>\<open>IndexError\<close> before \<^verbatim>\<open>coord\<close> is looked up; on a body without \<^verbatim>\<open>wind\<close>,
  \<^verbatim>\<open>weather\<close> and \<^verbatim>\<open>coord\<close> whose \<^verbatim>\<open>main\<close> is \<^verbatim>\<open>null\<close>, \<^verbatim>\<open>data["main"]["temp"]\<close>
  raises \<^verbatim>\<open>TypeError\<close>. Neither is caught: the exception leaves the function and no
  message names the missing field.
\<close>

theorem fetch_weather_missing_field_raises:
  "fetch_weather
     (answering (PDict
        [(''cod'', PInt 200),
         (''name'', PStr ''Lahore''),
         (''main'', PDict [(''temp'', PInt 30), (''humidity'', PInt 50)]),
         (''wind'', PDict [(''speed'', PInt 2)]),
         (''weather'', PList [])]))
     (PStr ''Lahore'') PNone PNone =
   ([ByCity (PStr ''Lahore'')], Inl IndexError)
   \<and> map_of
        [(''cod'', PInt 200),
         (''name'', PStr ''Lahore''),
         (''main'', PDict [(''temp'', PInt 30), (''humidity'', PInt 50)]),
         (''wind'', PDict [(''speed'', PInt 2)]),
         (''weather'', PList [])] ''coord'' = None
   \<and> fetch_weather
     (answering (PDict [(''cod'', PInt 200), (''name'', PStr ''Lahore''), (''main'', PNone)]))
     (PStr ''Lahore'') PNone PNone =
   ([ByCity (PStr ''Lahore'')], Inl TypeError)
   \<and> map_of [(''cod'', PInt 200), (''name'', PStr ''Lahore''), (''main'', PNone)] ''wind'' =
       None"
  by (simp add: fetch_weather_def fetch_weather_try_def build_query_def answering_def
      observation_of_def and_then_def index_of_def)

text \<open>
  C2. \<^verbatim>\<open>fetch_weather\<close> is to return every failure as a pair of \<^verbatim>\<open>None\<close> and a message.
  On a body of cod 200 whose \<^verbatim>\<open>weather\<close> is the empty list, \<^verbatim>\<open>data["weather"][0]\<close>
  raises \<^verbatim>\<open>IndexError\<close>, which neither \<^verbatim>\<open>except\<close> clause catches: the exception leaves
  the function. The same holds for a body that is not an object (\<^verbatim>\<open>AttributeError\<close>)
  and for a \<^verbatim>\<open>main\<close> that is not an object (\<^verbatim>\<open>TypeError\<close>).
\<close>

theorem fetch_weather_raises:
  "fetch_weather
     (answering (PDict
        [(''cod'', PInt 200),
         (''name'', PStr ''Lahore''),
         (''main'', PDict [(''temp'', PInt 30), (''humidity'', PInt 50)]),
         (''wind'', PDict [(''speed'', PInt 2)]),
         (''weather'', PList []),
         (''coord'', PDict [(''lat'', PFloat (Finite 31.5)), (''lon'', PFloat (Finite 74.3))])]))
     (PStr ''Lahore'') PNone PNone =
   ([ByCity (PStr ''Lahore'')], Inl IndexError)
   \<and> fetch_weather (answering (PList [])) (PStr ''Lahore'') PNone PNone =
   ([ByCity (PStr ''Lahore'')], Inl AttributeError)
   \<and> fetch_weather (answering (PDict [(''cod'', PInt 200), (''name'', PStr ''Lahore''),
        (''main'', PNone)])) (PStr ''Lahore'') PNone PNone =
   ([ByCity (PStr ''Lahore'')], Inl TypeError)"
  by (simp add: fetch_weather_def fetch_weather_try_def build_query_def answering_def
      observation_of_def and_then_def index_of_def)

subsection \<open>DatabaseManager\<close>



lemma sql_eq_None [simp]: "sql_eq x None = False"
  by (cases x) simp_all




















end
